theory Spec2Isabelle
  imports Complex_Main "HOL-Library.Word"
begin

section \<open>Numbers of the dataframe engine and of the host language\<close>

text \<open>
  The script \<^verbatim>\<open>combiner.py\<close> computes with three kinds of numbers: the engine's
  32-bit \<^verbatim>\<open>int\<close> columns (after \<^verbatim>\<open>cast("int")\<close>), the engine's 64-bit results of
  \<^verbatim>\<open>sum\<close> over such a column, and IEEE binary64 doubles, both in the engine
  (\<^verbatim>\<open>/\<close>, \<^verbatim>\<open>*\<close>, \<^verbatim>\<open>round\<close>) and in Python (\<^verbatim>\<open>round(x, 2)\<close>).

  A finite double is modelled by the rational number it denotes; every arithmetic
  operation computes the exact rational result and rounds it to the nearest double,
  ties to the even significand (\<open>fl\<close>). Infinities and NaN are not modelled: the
  percentages of the script are quotients of 64-bit integers times 100, far inside the
  range of binary64.
\<close>

type_synonym int32 = "32 word"
type_synonym int64 = "64 word"
type_synonym double = rat

definition bpow :: "int \<Rightarrow> int \<Rightarrow> rat" where
  "bpow b e = (if 0 \<le> e then of_int b ^ nat e else 1 / of_int b ^ nat (- e))"

text \<open>\<open>intlen b x\<close> is the number of digits of \<open>x\<close> in base \<open>b\<close>.\<close>

function intlen :: "int \<Rightarrow> int \<Rightarrow> int" where
  "intlen b x = (if 0 < x \<and> 1 < b then intlen b (x div b) + 1 else 0)"
  by pat_completeness auto
termination
  by (relation "measure (\<lambda>(b, x). nat x)") (auto simp: int_div_less_self)

text \<open>\<open>ilog b x\<close> is the integer \<open>d\<close> with \<open>b^d \<le> x < b^(d+1)\<close>, for \<open>x > 0\<close>.\<close>

definition ilog :: "int \<Rightarrow> rat \<Rightarrow> int" where
  "ilog b x =
     (let (p, q) = quotient_of x;
          d = intlen b p - intlen b q
      in if bpow b d \<le> x then d else d - 1)"

text \<open>Rounding a rational to an integer: ties to even, and ties away from zero.\<close>

definition round_half_even :: "rat \<Rightarrow> int" where
  "round_half_even x =
     (let f = \<lfloor>x\<rfloor>; r = x - of_int f
      in if r < 1 / 2 then f
         else if 1 / 2 < r then f + 1
         else if even f then f else f + 1)"

definition round_half_up :: "rat \<Rightarrow> int" where
  "round_half_up x = (if 0 \<le> x then \<lfloor>x + 1 / 2\<rfloor> else - \<lfloor>- x + 1 / 2\<rfloor>)"

text \<open>
  The nearest binary64 value: 53 significant bits, ties to even, with the exponent
  held at the subnormal limit.
\<close>

definition fl :: "rat \<Rightarrow> double" where
  "fl x =
     (if x = 0 then 0
      else let e = max (ilog 2 \<bar>x\<bar> - 52) (- 1074);
               m = round_half_even (\<bar>x\<bar> / bpow 2 e)
           in sgn x * of_int m * bpow 2 e)"

text \<open>
  Python's \<^verbatim>\<open>round(x, 2)\<close> on a float: the exact binary value is rounded to two
  decimals, ties to even, and the decimal result is converted back to a double.
\<close>

definition py_round2 :: "double \<Rightarrow> double" where
  "py_round2 x = fl (of_int (round_half_even (x * 100)) / 100)"

text \<open>
  The engine's \<^verbatim>\<open>round(col, 2)\<close> on a double column goes through a decimal: the
  double is printed with the fewest significant digits that read back as the same
  double (\<open>shortest_decimal\<close>), that decimal is set to scale 2 with ties away from
  zero (HALF\_UP), and the result is converted back to a double.
\<close>

definition round_sig :: "nat \<Rightarrow> rat \<Rightarrow> rat" where
  "round_sig n x =
     (let s = bpow 10 (ilog 10 \<bar>x\<bar> - int n + 1)
      in sgn x * of_int (round_half_even (\<bar>x\<bar> / s)) * s)"

fun shortest_from :: "nat \<Rightarrow> nat \<Rightarrow> double \<Rightarrow> rat" where
  "shortest_from 0 n x = x"
| "shortest_from (Suc fuel) n x =
     (let d = round_sig n x in if fl d = x then d else shortest_from fuel (Suc n) x)"

definition shortest_decimal :: "double \<Rightarrow> rat" where
  "shortest_decimal x = (if x = 0 then 0 else shortest_from 17 1 x)"

definition spark_round2 :: "double \<Rightarrow> double" where
  "spark_round2 x = fl (of_int (round_half_up (shortest_decimal x * 100)) / 100)"


definition int_to_double :: "int \<Rightarrow> double" where
  "int_to_double i = fl (of_int i)"

definition div_double :: "double \<Rightarrow> double \<Rightarrow> double" where
  "div_double a b = fl (a / b)"

definition mul_double :: "double \<Rightarrow> double \<Rightarrow> double" where
  "mul_double a b = fl (a * b)"

section \<open>Column expressions\<close>

text \<open>
  A column value is \<open>None\<close> for SQL \<^verbatim>\<open>NULL\<close>. Comparisons and arithmetic are null
  when an operand is null; \<^verbatim>\<open>when(c, v).otherwise(d)\<close> takes \<open>v\<close> only when the
  condition is true, so a null condition falls through to \<open>d\<close>. The engine is taken
  in its permissive mode, where a cast that fails and a division by zero give null
  instead of raising.
\<close>

definition sql_gt :: "'a::linorder option \<Rightarrow> 'a option \<Rightarrow> bool option" where
  "sql_gt a b = (case (a, b) of (Some x, Some y) \<Rightarrow> Some (y < x) | _ \<Rightarrow> None)"

definition sql_ge :: "'a::linorder option \<Rightarrow> 'a option \<Rightarrow> bool option" where
  "sql_ge a b = (case (a, b) of (Some x, Some y) \<Rightarrow> Some (y \<le> x) | _ \<Rightarrow> None)"

definition when_otherwise :: "bool option \<Rightarrow> 'a \<Rightarrow> 'a \<Rightarrow> 'a" where
  "when_otherwise c v d = (if c = Some True then v else d)"

text \<open>
  \<^verbatim>\<open>/\<close> on two integer columns converts both to double and divides; the quotient is
  null when an operand is null or the divisor is zero.
\<close>

definition sql_divide :: "int option \<Rightarrow> int option \<Rightarrow> double option" where
  "sql_divide a b =
     (case (a, b) of
        (Some x, Some y) \<Rightarrow>
          if y = 0 then None else Some (div_double (int_to_double x) (int_to_double y))
      | _ \<Rightarrow> None)"

definition sql_times :: "double option \<Rightarrow> double option \<Rightarrow> double option" where
  "sql_times a b = (case (a, b) of (Some x, Some y) \<Rightarrow> Some (mul_double x y) | _ \<Rightarrow> None)"

definition sround :: "double option \<Rightarrow> double option" where
  "sround a = map_option spark_round2 a"

section \<open>Rows\<close>

text \<open>
  A cell of a numeric source column, as the loader hands it to \<^verbatim>\<open>cast\<close>: a value
  of the target type, a text the cast cannot read, or nothing. The cast is the
  engine's: it yields null where it cannot produce a value.
\<close>

datatype 'a cell = Value 'a | Malformed string | Empty

fun cast :: "'a cell \<Rightarrow> 'a option" where
  "cast (Value v) = Some v"
| "cast (Malformed s) = None"
| "cast Empty = None"

record raw_row =
  village_name :: "string option"
  district :: "string option"
  state :: "string option"
  total_households :: "int32 cell"
  households_with_clean_water :: "int32 cell"
  latitude :: "double cell"
  longitude :: "double cell"

record row =
  Village :: "string option"
  District :: "string option"
  State :: "string option"
  TotalHouseholds :: "int32 option"
  CleanWaterHH :: "int32 option"
  Lat :: "double option"
  Lon :: "double option"
  PercentAccess :: "double option"
  AccessLevel :: string

text \<open>Lines 32--33 and 34--37 of \<^verbatim>\<open>main\<close>.\<close>

definition percent_access :: "int option \<Rightarrow> int option \<Rightarrow> double option" where
  "percent_access tot cln =
     when_otherwise (sql_gt tot (Some 0))
       (sql_times (sql_divide cln tot) (Some 100))
       (Some 0)"

definition access_level :: "double option \<Rightarrow> string" where
  "access_level p =
     when_otherwise (sql_ge p (Some 75)) ''High''
       (when_otherwise (sql_ge p (Some 40)) ''Medium'' ''Low'')"

text \<open>Lines 19--37: rename, cast, and the two derived columns, row by row.\<close>

definition transform :: "raw_row \<Rightarrow> row" where
  "transform r =
     (let tot = cast (total_households r);
          cln = cast (households_with_clean_water r);
          p = percent_access (map_option sint tot) (map_option sint cln)
      in \<lparr>Village = village_name r, District = district r, State = state r,
          TotalHouseholds = tot, CleanWaterHH = cln,
          Lat = cast (latitude r), Lon = cast (longitude r),
          PercentAccess = p, AccessLevel = access_level p\<rparr>)"

section \<open>District summary\<close>

record summary =
  sum_State :: "string option"
  sum_District :: "string option"
  sum_TotalHouseholds :: "int64 option"
  sum_CleanWaterHH :: "int64 option"
  sum_PercentAccess :: "double option"

text \<open>
  The engine's \<^verbatim>\<open>sum\<close> over an \<^verbatim>\<open>int\<close> column: a 64-bit accumulator that starts
  null, skips null inputs, and adds every other input after widening it.
\<close>

definition sum_step :: "int64 option \<Rightarrow> int32 option \<Rightarrow> int64 option" where
  "sum_step acc x =
     (case x of
        None \<Rightarrow> acc
      | Some v \<Rightarrow> Some ((case acc of None \<Rightarrow> 0 | Some a \<Rightarrow> a) + scast v))"

definition sql_sum :: "int32 option list \<Rightarrow> int64 option" where
  "sql_sum xs = foldl sum_step None xs"

definition key_of :: "row \<Rightarrow> string option \<times> string option" where
  "key_of r = (State r, District r)"

text \<open>
  \<^verbatim>\<open>groupBy("State","District")\<close>: one group per distinct key, a null key being a
  key like any other. The engine fixes no order of the groups; the model lists them
  by the last row of each.
\<close>

definition group_keys :: "row list \<Rightarrow> (string option \<times> string option) list" where
  "group_keys rows = remdups (map key_of rows)"

definition group_of :: "row list \<Rightarrow> string option \<times> string option \<Rightarrow> row list" where
  "group_of rows k = filter (\<lambda>r. key_of r = k) rows"

text \<open>Lines 40--46.\<close>

definition summarise :: "string option \<times> string option \<Rightarrow> row list \<Rightarrow> summary" where
  "summarise k g =
     (let tot = sql_sum (map TotalHouseholds g);
          cln = sql_sum (map CleanWaterHH g)
      in \<lparr>sum_State = fst k, sum_District = snd k,
          sum_TotalHouseholds = tot, sum_CleanWaterHH = cln,
          sum_PercentAccess =
            when_otherwise (sql_gt (map_option sint tot) (Some 0))
              (sround (sql_times (sql_divide (map_option sint cln) (map_option sint tot))
                 (Some 100)))
              (Some 0)\<rparr>)"

definition aggregate :: "row list \<Rightarrow> summary list" where
  "aggregate rows = map (\<lambda>k. summarise k (group_of rows k)) (group_keys rows)"

section \<open>GeoJSON features\<close>

datatype error = TypeError | PathNotFound | SystemExit int

record feature =
  coordinates :: "double option list"
  prop_Village :: "string option"
  prop_District :: "string option"
  prop_State :: "string option"
  prop_PercentAccess :: double
  prop_AccessLevel :: string

text \<open>
  Python's \<^verbatim>\<open>round(r.PercentAccess, 2)\<close> of line 60: a null column value arrives as
  \<^verbatim>\<open>None\<close>, which has no \<^verbatim>\<open>__round__\<close>.
\<close>

definition round_py :: "double option \<Rightarrow> error + double" where
  "round_py p = (case p of None \<Rightarrow> Inl TypeError | Some x \<Rightarrow> Inr (py_round2 x))"

text \<open>The loop of lines 52--63, appending to \<^verbatim>\<open>features\<close>.\<close>

fun features_loop :: "row list \<Rightarrow> feature list \<Rightarrow> error + feature list" where
  "features_loop [] features = Inr features"
| "features_loop (r # rows) features =
     (case round_py (PercentAccess r) of
        Inl e \<Rightarrow> Inl e
      | Inr p \<Rightarrow>
          features_loop rows
            (features @
              [\<lparr>coordinates = [Lon r, Lat r],
                prop_Village = Village r, prop_District = District r, prop_State = State r,
                prop_PercentAccess = p, prop_AccessLevel = AccessLevel r\<rparr>]))"

section \<open>The run\<close>

text \<open>
  The store maps a path to what is kept there: the table the loader reads, the
  summary the engine writes, the feature collection, and the three fixed texts of the
  web bundle (lines 71--105). Standard output is the list of printed messages.
\<close>

datatype content =
    CsvTable "raw_row list"
  | SummaryCsv "summary list"
  | GeoJson "feature list"
  | HtmlCode
  | CssCode
  | JsCode

datatype message =
    Usage
  | AnalysisComplete
  | OutputsIn string
  | FilesHeading
  | FilesSummary
  | FilesPoints
  | FilesBundle

record world =
  files :: "string \<rightharpoonup> content"
  stdout :: "message list"

definition write_file :: "string \<Rightarrow> content \<Rightarrow> world \<Rightarrow> world" where
  "write_file path c w = w\<lparr>files := (files w)(path \<mapsto> c)\<rparr>"

definition print :: "message \<Rightarrow> world \<Rightarrow> world" where
  "print m w = w\<lparr>stdout := stdout w @ [m]\<rparr>"

text \<open>\<^verbatim>\<open>os.path.join\<close> of two components.\<close>

definition path_join :: "string \<Rightarrow> string \<Rightarrow> string" where
  "path_join a b =
     (if b \<noteq> [] \<and> hd b = CHR ''/'' then b
      else if a = [] \<or> last a = CHR ''/'' then a @ b
      else a @ ''/'' @ b)"

text \<open>
  \<^verbatim>\<open>main\<close>, lines 12--118. The result is the exception that ended the run, if any,
  and the world as the run left it: what was written before an exception stays
  written. The input table is read once, before anything is written.
\<close>

definition main :: "string \<Rightarrow> string \<Rightarrow> world \<Rightarrow> error option \<times> world" where
  "main input_path output_dir w =
     (case files w input_path of
        Some (CsvTable raws) \<Rightarrow>
          (let df = map transform raws;
               w1 = write_file (output_dir @ ''/district_summary'') (SummaryCsv (aggregate df)) w
           in case features_loop df [] of
                Inl e \<Rightarrow> (Some e, w1)
              | Inr features \<Rightarrow>
                  (None,
                   (print FilesBundle \<circ> print FilesPoints \<circ> print FilesSummary \<circ>
                    print FilesHeading \<circ> print (OutputsIn output_dir) \<circ> print AnalysisComplete \<circ>
                    write_file (path_join output_dir ''script.js'') JsCode \<circ>
                    write_file (path_join output_dir ''styles.css'') CssCode \<circ>
                    write_file (path_join output_dir ''index.html'') HtmlCode \<circ>
                    write_file (path_join output_dir ''points.geojson'') (GeoJson features)) w1))
      | _ \<Rightarrow> (Some PathNotFound, w))"

text \<open>Lines 120--124: the guard on \<^verbatim>\<open>sys.argv\<close>, whose first entry is the script.\<close>

definition script :: "string list \<Rightarrow> world \<Rightarrow> error option \<times> world" where
  "script argv w =
     (if length argv \<noteq> 3 then (Some (SystemExit 1), print Usage w)
      else main (argv ! 1) (argv ! 2) w)"


section \<open>Notions of the specification\<close>

text \<open>
  The sum the specification speaks of: a null field counts as zero and the integers are
  unbounded.
\<close>

definition null_as_zero :: "int32 option \<Rightarrow> int" where
  "null_as_zero x = (case x of None \<Rightarrow> 0 | Some v \<Rightarrow> sint v)"

definition exact_sum :: "int32 option list \<Rightarrow> int" where
  "exact_sum xs = sum_list (map null_as_zero xs)"

definition summary_key :: "summary \<Rightarrow> string option \<times> string option" where
  "summary_key s = (sum_State s, sum_District s)"

text \<open>
  The feature the specification expects for a record: the point [Lon, Lat], the three
  names, the level, and the percentage rounded to two decimals by the host language.
  There is none for a record whose percentage is null.
\<close>

definition feature_of :: "row \<Rightarrow> feature option" where
  "feature_of r =
     map_option
       (\<lambda>x. \<lparr>coordinates = [Lon r, Lat r],
              prop_Village = Village r, prop_District = District r, prop_State = State r,
              prop_PercentAccess = py_round2 x, prop_AccessLevel = AccessLevel r\<rparr>)
       (PercentAccess r)"

section \<open>Worked inputs\<close>

text \<open>
  A row of the input table with the given village, household count and clean-water
  count, in district D of state S at 22.5 north, 80.5 east.
\<close>

definition example_row :: "string \<Rightarrow> int32 cell \<Rightarrow> int32 cell \<Rightarrow> raw_row" where
  "example_row v t c =
     \<lparr>village_name = Some v, district = Some ''D'', state = Some ''S'',
      total_households = t, households_with_clean_water = c,
      latitude = Value (45 / 2), longitude = Value (161 / 2)\<rparr>"

text \<open>Two villages of one district: 80 of 100 households, and 10 of 50.\<close>

definition example_district :: "row list" where
  "example_district =
     map transform
       [example_row ''A'' (Value 100) (Value 80), example_row ''B'' (Value 50) (Value 10)]"

text \<open>A store that holds the given table at \<^verbatim>\<open>in.csv\<close> and nothing else.\<close>

definition example_world :: "raw_row list \<Rightarrow> world" where
  "example_world raws = \<lparr>files = [''in.csv'' \<mapsto> CsvTable raws], stdout = []\<rparr>"

section \<open>The transformer\<close>

lemma transform_simps:
  "TotalHouseholds (transform r) = cast (total_households r)"
  "CleanWaterHH (transform r) = cast (households_with_clean_water r)"
  "PercentAccess (transform r) =
     percent_access (map_option sint (cast (total_households r)))
       (map_option sint (cast (households_with_clean_water r)))"
  "AccessLevel (transform r) = access_level (PercentAccess (transform r))"
  "Village (transform r) = village_name r"
  "District (transform r) = district r"
  "State (transform r) = state r"
  "Lat (transform r) = cast (latitude r)"
  "Lon (transform r) = cast (longitude r)"
  by (simp_all add: transform_def Let_def)

lemma percent_access_cases:
  "percent_access t c =
     (case t of
        None \<Rightarrow> Some 0
      | Some x \<Rightarrow>
          if 0 < x
          then map_option (\<lambda>y. mul_double (div_double (int_to_double y) (int_to_double x)) 100) c
          else Some 0)"
  by (cases t; cases c)
     (auto simp: percent_access_def when_otherwise_def sql_gt_def sql_times_def sql_divide_def)

lemma access_level_cases:
  "access_level p =
     (case p of
        None \<Rightarrow> ''Low''
      | Some x \<Rightarrow> if 75 \<le> x then ''High'' else if 40 \<le> x then ''Medium'' else ''Low'')"
  by (cases p) (auto simp: access_level_def when_otherwise_def sql_ge_def)




lemma boundary_percent:
  "PercentAccess (transform (example_row ''A'' (Value 4) (Value 3))) = Some 75"
  "PercentAccess (transform (example_row ''A'' (Value 5) (Value 2))) = Some 40"
  by code_simp+



text \<open>
  C2. For every transformed record \<open>AccessLevel\<close> is a total function of
  \<open>PercentAccess\<close>, first match first: at least 75 is "High", else at least 40 is
  "Medium", else "Low" (a null percentage matches neither test). The boundaries 75
  and 40 are "High" and "Medium": three households of four, and two of five, reach
  them exactly. A record with no households is "Low".
\<close>

theorem access_level_record:
  "AccessLevel (transform r) =
     (case PercentAccess (transform r) of
        None \<Rightarrow> ''Low''
      | Some p \<Rightarrow> if 75 \<le> p then ''High'' else if 40 \<le> p then ''Medium'' else ''Low'')
   \<and> (PercentAccess (transform r) = Some 75 \<longrightarrow> AccessLevel (transform r) = ''High'')
   \<and> (PercentAccess (transform r) = Some 40 \<longrightarrow> AccessLevel (transform r) = ''Medium'')
   \<and> (TotalHouseholds (transform r) = Some 0 \<longrightarrow> AccessLevel (transform r) = ''Low'')"
  by (simp add: transform_simps access_level_cases percent_access_cases)

theorem access_level_record_witness:
  "AccessLevel (transform (example_row ''A'' (Value 4) (Value 3))) = ''High''
   \<and> AccessLevel (transform (example_row ''A'' (Value 5) (Value 2))) = ''Medium''
   \<and> AccessLevel (transform (example_row ''Z'' (Value 0) (Value 0))) = ''Low''"
proof -
  have "TotalHouseholds (transform (example_row ''Z'' (Value 0) (Value 0))) = Some 0"
    by (simp add: transform_simps example_row_def)
  with boundary_percent
    access_level_record [of "example_row ''A'' (Value 4) (Value 3)"]
    access_level_record [of "example_row ''A'' (Value 5) (Value 2)"]
    access_level_record [of "example_row ''Z'' (Value 0) (Value 0)"]
  show ?thesis by blast
qed

text \<open>
  C9. A row whose \<open>TotalHouseholds\<close> is above 0 and whose \<open>CleanWaterHH\<close> is null has
  a null \<open>PercentAccess\<close> (not 0) and the level "Low"; a row whose \<open>TotalHouseholds\<close>
  is null or negative has \<open>PercentAccess\<close> 0, not the ratio, and the level "Low".
\<close>

theorem null_and_negative_rows:
  "(TotalHouseholds (transform r) = Some t \<and> 0 < sint t \<and> CleanWaterHH (transform r) = None
      \<longrightarrow> PercentAccess (transform r) = None \<and> PercentAccess (transform r) \<noteq> Some 0
          \<and> AccessLevel (transform r) = ''Low'')
   \<and> (TotalHouseholds (transform r) = None
        \<or> (TotalHouseholds (transform r) = Some t \<and> sint t < 0)
      \<longrightarrow> PercentAccess (transform r) = Some 0 \<and> AccessLevel (transform r) = ''Low'')"
  by (auto simp: transform_simps access_level_cases percent_access_cases)

theorem null_and_negative_rows_witness:
  "PercentAccess (transform (example_row ''N'' (Value 100) (Malformed ''abc''))) = None
   \<and> AccessLevel (transform (example_row ''N'' (Value 100) (Malformed ''abc''))) = ''Low''
   \<and> PercentAccess (transform (example_row ''M'' (Value (- 5)) (Value 2))) = Some 0
   \<and> AccessLevel (transform (example_row ''M'' (Value (- 5)) (Value 2))) = ''Low''
   \<and> PercentAccess (transform (example_row ''E'' Empty (Value 2))) = Some 0
   \<and> AccessLevel (transform (example_row ''E'' Empty (Value 2))) = ''Low''"
proof -
  have a: "TotalHouseholds (transform (example_row ''N'' (Value 100) (Malformed ''abc''))) = Some 100
      \<and> 0 < sint (100 :: int32)
      \<and> CleanWaterHH (transform (example_row ''N'' (Value 100) (Malformed ''abc''))) = None"
    by (simp add: transform_simps example_row_def)
  have b: "TotalHouseholds (transform (example_row ''M'' (Value (- 5)) (Value 2))) = Some (- 5)
      \<and> sint (- 5 :: int32) < 0"
    by (simp add: transform_simps example_row_def)
  have c: "TotalHouseholds (transform (example_row ''E'' Empty (Value 2))) = None"
    by (simp add: transform_simps example_row_def)
  from a b c
    null_and_negative_rows [of "example_row ''N'' (Value 100) (Malformed ''abc'')" 100]
    null_and_negative_rows [of "example_row ''M'' (Value (- 5)) (Value 2)" "- 5"]
    null_and_negative_rows [of "example_row ''E'' Empty (Value 2)" 0]
  show ?thesis by blast
qed

section \<open>The aggregator\<close>

subsection \<open>The engine's sum\<close>

lemma scast_widen: "(scast (v :: int32) :: int64) = word_of_int (sint v)"
  by (rule scast_eq)

lemma sum_list_all_null:
  "\<forall>x\<in>set xs. x = None \<Longrightarrow> sum_list (map null_as_zero xs) = 0"
  by (induction xs) (simp_all add: null_as_zero_def)

lemma foldl_sum_step:
  "foldl sum_step acc xs =
     (if \<forall>x\<in>set xs. x = None then acc
      else Some ((case acc of None \<Rightarrow> 0 | Some a \<Rightarrow> a) + word_of_int (exact_sum xs)))"
proof (induction xs arbitrary: acc)
  case Nil
  then show ?case by simp
next
  case (Cons x xs)
  show ?case
  proof (cases x)
    case None
    then show ?thesis using Cons.IH [of acc]
      by (auto simp: sum_step_def exact_sum_def null_as_zero_def)
  next
    case (Some v)
    then show ?thesis using Cons.IH [of "sum_step acc (Some v)"]
      by (cases acc)
         (auto simp add: sum_step_def exact_sum_def null_as_zero_def scast_widen ac_simps
            sum_list_all_null simp del: of_int_sint)
  qed
qed

lemma sql_sum_eq:
  "sql_sum xs =
     (if \<forall>x\<in>set xs. x = None then None else Some (word_of_int (exact_sum xs)))"
  by (simp add: sql_sum_def foldl_sum_step)

text \<open>Fewer than \<open>2^32\<close> values of 32 bits cannot overflow the 64-bit accumulator.\<close>

lemma null_as_zero_bound: "\<bar>null_as_zero x\<bar> \<le> 2 ^ 31"
proof (cases x)
  case None
  then show ?thesis by (simp add: null_as_zero_def)
next
  case (Some v)
  have "- (2 ^ 31) \<le> sint v" "sint v < 2 ^ 31"
    using sint_ge [of v] sint_lt [of v] by simp_all
  then show ?thesis using Some by (simp add: null_as_zero_def)
qed

lemma exact_sum_bound: "\<bar>exact_sum xs\<bar> \<le> int (length xs) * 2 ^ 31"
proof (induction xs)
  case Nil
  then show ?case by (simp add: exact_sum_def)
next
  case (Cons x xs)
  have "\<bar>exact_sum (x # xs)\<bar> \<le> \<bar>null_as_zero x\<bar> + \<bar>exact_sum xs\<bar>"
    by (simp add: exact_sum_def)
  also have "\<dots> \<le> 2 ^ 31 + int (length xs) * 2 ^ 31"
    using null_as_zero_bound [of x] Cons.IH by linarith
  finally show ?case by (simp add: algebra_simps)
qed

lemma sint_exact_sum:
  assumes "length xs < 2 ^ 32"
  shows "sint (word_of_int (exact_sum xs) :: int64) = exact_sum xs"
proof -
  have "int (length xs) \<le> 2 ^ 32 - 1" using assms by simp
  then have "int (length xs) * 2 ^ 31 \<le> (2 ^ 32 - 1) * 2 ^ 31"
    by (rule mult_right_mono) simp
  with exact_sum_bound [of xs] have "\<bar>exact_sum xs\<bar> < 2 ^ 63" by simp
  then have "- (2 ^ 63) \<le> exact_sum xs" "exact_sum xs < 2 ^ 63" by linarith+
  then show ?thesis
    by (simp add: sint_sbintrunc' signed_take_bit_int_eq_self)
qed

subsection \<open>Groups and their summaries\<close>

lemma summarise_simps:
  "summary_key (summarise k g) = k"
  "sum_TotalHouseholds (summarise k g) = sql_sum (map TotalHouseholds g)"
  "sum_CleanWaterHH (summarise k g) = sql_sum (map CleanWaterHH g)"
  "sum_PercentAccess (summarise k g) =
     when_otherwise (sql_gt (map_option sint (sql_sum (map TotalHouseholds g))) (Some 0))
       (sround (sql_times
          (sql_divide (map_option sint (sql_sum (map CleanWaterHH g)))
             (map_option sint (sql_sum (map TotalHouseholds g))))
          (Some 100)))
       (Some 0)"
  by (simp_all add: summarise_def summary_key_def Let_def)



lemma summarise_sums:
  "sum_TotalHouseholds (summarise k g) =
     (if \<forall>r\<in>set g. TotalHouseholds r = None then None
      else Some (word_of_int (exact_sum (map TotalHouseholds g))))"
  "sum_CleanWaterHH (summarise k g) =
     (if \<forall>r\<in>set g. CleanWaterHH r = None then None
      else Some (word_of_int (exact_sum (map CleanWaterHH g))))"
  by (simp_all add: summarise_simps sql_sum_eq)

lemma summarise_sums_exact:
  assumes "length g < 2 ^ 32"
  shows "map_option sint (sum_TotalHouseholds (summarise k g)) =
     (if \<forall>r\<in>set g. TotalHouseholds r = None then None
      else Some (exact_sum (map TotalHouseholds g)))"
    and "map_option sint (sum_CleanWaterHH (summarise k g)) =
     (if \<forall>r\<in>set g. CleanWaterHH r = None then None
      else Some (exact_sum (map CleanWaterHH g)))"
  using assms sint_exact_sum [of "map TotalHouseholds g"] sint_exact_sum [of "map CleanWaterHH g"]
  by (simp_all add: summarise_sums)

lemma aggregate_keys: "map summary_key (aggregate rows) = group_keys rows"
  by (simp add: aggregate_def comp_def summarise_simps)

lemma aggregate_member:
  assumes "s \<in> set (aggregate rows)"
  shows "s = summarise (summary_key s) (filter (\<lambda>r. key_of r = summary_key s) rows)"
proof -
  from assms obtain k where s: "s = summarise k (group_of rows k)"
    by (auto simp: aggregate_def)
  have sk: "summary_key s = k" by (simp add: s summarise_simps)
  show ?thesis unfolding sk by (simp add: s group_of_def)
qed

subsection \<open>The worked district\<close>


lemma example_district_aggregate:
  "aggregate example_district =
     [\<lparr>sum_State = Some ''S'', sum_District = Some ''D'',
       sum_TotalHouseholds = Some 150, sum_CleanWaterHH = Some 90,
       sum_PercentAccess = Some 60\<rparr>]"
  by code_simp

lemma example_district_group:
  "filter (\<lambda>r. key_of r = (Some ''S'', Some ''D'')) example_district = example_district"
  by code_simp

lemma example_district_sums:
  "exact_sum (map TotalHouseholds example_district) = 150"
  "exact_sum (map CleanWaterHH example_district) = 90"
  by code_simp+

lemma example_district_not_null:
  "\<not> (\<forall>r\<in>set example_district. TotalHouseholds r = None)"
  "\<not> (\<forall>r\<in>set example_district. CleanWaterHH r = None)"
  by code_simp+



text \<open>
  C4, as amended. The aggregation emits exactly one summary for every
  (State, District) pair present in the records. Its \<open>TotalHouseholds\<close> is null when
  every record of the group has a null \<open>TotalHouseholds\<close>; otherwise it is the sum over
  all records of the group, a null counting as zero, held in 64 bits, and that is the
  exact sum for every group of fewer than \<open>2^32\<close> records. The same holds for
  \<open>CleanWaterHH\<close>. The group of a summary is every record with its key, each once.
\<close>

theorem district_sums_exact:
  "distinct (map summary_key (aggregate rows))
   \<and> set (map summary_key (aggregate rows)) = key_of ` set rows
   \<and> (\<forall>s\<in>set (aggregate rows).
        let g = filter (\<lambda>r. key_of r = summary_key s) rows in
          sum_TotalHouseholds s =
            (if \<forall>r\<in>set g. TotalHouseholds r = None then None
             else Some (word_of_int (exact_sum (map TotalHouseholds g))))
        \<and> sum_CleanWaterHH s =
            (if \<forall>r\<in>set g. CleanWaterHH r = None then None
             else Some (word_of_int (exact_sum (map CleanWaterHH g))))
        \<and> (length g < 2 ^ 32 \<longrightarrow>
             map_option sint (sum_TotalHouseholds s) =
               (if \<forall>r\<in>set g. TotalHouseholds r = None then None
                else Some (exact_sum (map TotalHouseholds g)))
           \<and> map_option sint (sum_CleanWaterHH s) =
               (if \<forall>r\<in>set g. CleanWaterHH r = None then None
                else Some (exact_sum (map CleanWaterHH g)))))"
proof (intro conjI ballI)
  show "distinct (map summary_key (aggregate rows))"
    unfolding aggregate_keys group_keys_def by simp
  show "set (map summary_key (aggregate rows)) = key_of ` set rows"
    unfolding aggregate_keys group_keys_def by simp
next
  fix s
  assume "s \<in> set (aggregate rows)"
  then have s: "s = summarise (summary_key s) (filter (\<lambda>r. key_of r = summary_key s) rows)"
    by (rule aggregate_member)
  define g where "g = filter (\<lambda>r. key_of r = summary_key s) rows"
  have sg: "s = summarise (summary_key s) g" using s by (simp add: g_def)
  have t: "sum_TotalHouseholds s =
            (if \<forall>r\<in>set g. TotalHouseholds r = None then None
             else Some (word_of_int (exact_sum (map TotalHouseholds g))))"
    by (subst sg) (rule summarise_sums)
  have c: "sum_CleanWaterHH s =
            (if \<forall>r\<in>set g. CleanWaterHH r = None then None
             else Some (word_of_int (exact_sum (map CleanWaterHH g))))"
    by (subst sg) (rule summarise_sums)
  have e: "map_option sint (sum_TotalHouseholds s) =
               (if \<forall>r\<in>set g. TotalHouseholds r = None then None
                else Some (exact_sum (map TotalHouseholds g)))
           \<and> map_option sint (sum_CleanWaterHH s) =
               (if \<forall>r\<in>set g. CleanWaterHH r = None then None
                else Some (exact_sum (map CleanWaterHH g)))"
    if "length g < 2 ^ 32"
    using summarise_sums_exact [OF that, of "summary_key s"] sg by simp
  from t c e
  show "let g = filter (\<lambda>r. key_of r = summary_key s) rows in
          sum_TotalHouseholds s =
            (if \<forall>r\<in>set g. TotalHouseholds r = None then None
             else Some (word_of_int (exact_sum (map TotalHouseholds g))))
        \<and> sum_CleanWaterHH s =
            (if \<forall>r\<in>set g. CleanWaterHH r = None then None
             else Some (word_of_int (exact_sum (map CleanWaterHH g))))
        \<and> (length g < 2 ^ 32 \<longrightarrow>
             map_option sint (sum_TotalHouseholds s) =
               (if \<forall>r\<in>set g. TotalHouseholds r = None then None
                else Some (exact_sum (map TotalHouseholds g)))
           \<and> map_option sint (sum_CleanWaterHH s) =
               (if \<forall>r\<in>set g. CleanWaterHH r = None then None
                else Some (exact_sum (map CleanWaterHH g))))"
    unfolding Let_def g_def by blast
qed

theorem district_sums_exact_witness:
  "map summary_key (aggregate example_district) = [(Some ''S'', Some ''D'')]
   \<and> map_option sint (sum_TotalHouseholds (hd (aggregate example_district))) = Some 150
   \<and> map_option sint (sum_CleanWaterHH (hd (aggregate example_district))) = Some 90"
proof -
  let ?s = "hd (aggregate example_district)"
  have m: "?s \<in> set (aggregate example_district)"
    by (simp add: example_district_aggregate)
  have k: "summary_key ?s = (Some ''S'', Some ''D'')"
    by (simp add: example_district_aggregate summary_key_def)
  have l: "length example_district < 2 ^ 32"
    by (simp add: example_district_def)
  have keys: "map summary_key (aggregate example_district) = [(Some ''S'', Some ''D'')]"
    by (simp add: example_district_aggregate summary_key_def)
  from district_sums_exact [of example_district] m
  have "let g = filter (\<lambda>r. key_of r = summary_key ?s) example_district in
          length g < 2 ^ 32 \<longrightarrow>
             map_option sint (sum_TotalHouseholds ?s) =
               (if \<forall>r\<in>set g. TotalHouseholds r = None then None
                else Some (exact_sum (map TotalHouseholds g)))
           \<and> map_option sint (sum_CleanWaterHH ?s) =
               (if \<forall>r\<in>set g. CleanWaterHH r = None then None
                else Some (exact_sum (map CleanWaterHH g)))"
    unfolding Let_def by blast
  then show ?thesis
    unfolding Let_def k example_district_group
    using l keys example_district_not_null example_district_sums by simp
qed

text \<open>
  C4 as it was stated fails where a null is to count as zero throughout: a district
  whose only village has an empty household count gets a null \<open>TotalHouseholds\<close>,
  while the sum with null as zero is 0.
\<close>

theorem district_sum_null_counterexample:
  "map sum_TotalHouseholds (aggregate [transform (example_row ''E'' Empty (Value 2))]) = [None]
   \<and> exact_sum (map TotalHouseholds [transform (example_row ''E'' Empty (Value 2))]) = 0"
  by code_simp

section \<open>The exporter\<close>

text \<open>
  The loop of lines 52--63 either appends one feature per record, in order, or stops at
  the first record whose percentage is null.
\<close>

lemma features_loop_eq:
  "features_loop rows acc =
     (if \<forall>r\<in>set rows. PercentAccess r \<noteq> None
      then Inr (acc @ map (\<lambda>r. the (feature_of r)) rows)
      else Inl TypeError)"
proof (induction rows arbitrary: acc)
  case Nil
  then show ?case by simp
next
  case (Cons r rows)
  show ?case
  proof (cases "PercentAccess r")
    case None
    then show ?thesis by (simp add: round_py_def)
  next
    case (Some x)
    then show ?thesis
      by (simp add: round_py_def Cons.IH feature_of_def)
  qed
qed

lemma features_loop_ok:
  assumes "\<forall>r\<in>set rows. PercentAccess r \<noteq> None"
  shows "\<exists>fs. features_loop rows [] = Inr fs \<and> map Some fs = map feature_of rows"
proof -
  have "map Some (map (\<lambda>r. the (feature_of r)) rows) = map feature_of rows"
    using assms by (auto simp: feature_of_def)
  then show ?thesis using assms by (simp add: features_loop_eq)
qed

lemma features_loop_fails:
  assumes "r \<in> set rows" "PercentAccess r = None"
  shows "features_loop rows acc = Inl TypeError"
  using assms by (auto simp: features_loop_eq)

lemma path_join_name:
  assumes "b \<noteq> []" "hd b \<noteq> CHR ''/''"
  shows "path_join a b = (if a = [] \<or> last a = CHR ''/'' then a else a @ ''/'') @ b"
  using assms by (simp add: path_join_def)

lemma main_fails:
  assumes "files w inp = Some (CsvTable raws)" "raw \<in> set raws"
    "PercentAccess (transform raw) = None"
  shows "main inp out w =
     (Some TypeError,
      write_file (out @ ''/district_summary'') (SummaryCsv (aggregate (map transform raws))) w)"
proof -
  have "features_loop (map transform raws) [] = Inl TypeError"
    using assms(2,3) by (intro features_loop_fails [of "transform raw"]) auto
  then show ?thesis using assms(1) by (simp add: main_def Let_def)
qed

lemma main_ok:
  assumes "files w inp = Some (CsvTable raws)"
    "\<forall>raw\<in>set raws. PercentAccess (transform raw) \<noteq> None"
  shows "\<exists>fs. fst (main inp out w) = None
     \<and> files (snd (main inp out w)) (path_join out ''points.geojson'') = Some (GeoJson fs)
     \<and> map Some fs = map (\<lambda>raw. feature_of (transform raw)) raws"
proof -
  from assms(2) have "\<forall>r\<in>set (map transform raws). PercentAccess r \<noteq> None" by simp
  from features_loop_ok [OF this] obtain fs where
    fs: "features_loop (map transform raws) [] = Inr fs"
      "map Some fs = map feature_of (map transform raws)" by blast
  have "fst (main inp out w) = None" using assms(1) fs(1) by (simp add: main_def Let_def)
  moreover have "files (snd (main inp out w)) (path_join out ''points.geojson'') = Some (GeoJson fs)"
    using assms(1) fs(1)
    by (simp add: main_def Let_def write_file_def print_def path_join_name)
  moreover have "map Some fs = map (\<lambda>raw. feature_of (transform raw)) raws"
    using fs(2) by (simp add: comp_def)
  ultimately show ?thesis by blast
qed

text \<open>
  So a run over records that all have a percentage writes one feature per record under
  \<^verbatim>\<open>points.geojson\<close>, each the feature the specification expects; and a run that meets
  a null percentage ends with the summary written and nothing else.
\<close>

lemma lost_percents:
  "PercentAccess (transform (example_row ''A'' (Value 100) (Value 80))) = Some 80"
  "PercentAccess (transform (example_row ''B'' (Value 50) Empty)) = None"
  by code_simp+

text \<open>
  C5. The claim is that every record of the input appears as exactly one feature of the
  emitted collection. The code does not do that for every input: a table with the
  village A (80 of 100 households) and a village B whose clean-water cell is empty
  reaches line 60 with a null percentage for B, Python's \<open>round\<close> raises, and no
  \<^verbatim>\<open>points.geojson\<close> is written, so that A has no feature either.
\<close>

theorem geojson_lost_on_null_percent:
  "map PercentAccess
     (map transform [example_row ''A'' (Value 100) (Value 80), example_row ''B'' (Value 50) Empty])
     = [Some 80, None]
   \<and> features_loop
       (map transform [example_row ''A'' (Value 100) (Value 80), example_row ''B'' (Value 50) Empty]) []
     = Inl TypeError
   \<and> fst (main ''in.csv'' ''out''
        (example_world [example_row ''A'' (Value 100) (Value 80), example_row ''B'' (Value 50) Empty]))
     = Some TypeError
   \<and> files (snd (main ''in.csv'' ''out''
        (example_world [example_row ''A'' (Value 100) (Value 80), example_row ''B'' (Value 50) Empty])))
        ''out/points.geojson''
     = None"
proof (intro conjI)
  let ?raws = "[example_row ''A'' (Value 100) (Value 80), example_row ''B'' (Value 50) Empty]"
  show "map PercentAccess (map transform ?raws) = [Some 80, None]"
    by (simp add: lost_percents)
  show "features_loop (map transform ?raws) [] = Inl TypeError"
    by (rule features_loop_fails [of "transform (example_row ''B'' (Value 50) Empty)"])
       (simp_all add: lost_percents)
  have f: "files (example_world ?raws) ''in.csv'' = Some (CsvTable ?raws)"
    by (simp add: example_world_def)
  have m: "main ''in.csv'' ''out'' (example_world ?raws) =
     (Some TypeError,
      write_file (''out'' @ ''/district_summary'') (SummaryCsv (aggregate (map transform ?raws)))
        (example_world ?raws))"
    by (rule main_fails [OF f, of "example_row ''B'' (Value 50) Empty"])
       (simp_all add: lost_percents)
  show "fst (main ''in.csv'' ''out'' (example_world ?raws)) = Some TypeError"
    unfolding m by simp
  show "files (snd (main ''in.csv'' ''out'' (example_world ?raws))) ''out/points.geojson'' = None"
    unfolding m by (simp add: write_file_def example_world_def)
qed

text \<open>
  C6. The claim is that a value that fails coercion becomes null and that the null passes
  through the percentage and the exports without aborting the run. The first half
  holds: the cast gives null and the percentage is null. The second does not: with 100
  households and the text abc as the clean-water count, the summary is written (with a
  null percentage), then line 60 raises on the null, and the run ends with neither
  \<^verbatim>\<open>points.geojson\<close> nor the web bundle.
\<close>

theorem null_percent_aborts_run:
  "CleanWaterHH (transform (example_row ''N'' (Value 100) (Malformed ''abc''))) = None
   \<and> PercentAccess (transform (example_row ''N'' (Value 100) (Malformed ''abc''))) = None
   \<and> main ''in.csv'' ''out'' (example_world [example_row ''N'' (Value 100) (Malformed ''abc'')])
     = (Some TypeError,
        \<lparr>files = [''in.csv'' \<mapsto> CsvTable [example_row ''N'' (Value 100) (Malformed ''abc'')],
                  ''out/district_summary'' \<mapsto>
                    SummaryCsv [\<lparr>sum_State = Some ''S'', sum_District = Some ''D'',
                                 sum_TotalHouseholds = Some 100, sum_CleanWaterHH = None,
                                 sum_PercentAccess = None\<rparr>]],
          stdout = []\<rparr>)"
proof (intro conjI)
  show "CleanWaterHH (transform (example_row ''N'' (Value 100) (Malformed ''abc''))) = None"
    by (simp add: transform_simps example_row_def)
  show p: "PercentAccess (transform (example_row ''N'' (Value 100) (Malformed ''abc''))) = None"
    by code_simp
  have a: "aggregate (map transform [example_row ''N'' (Value 100) (Malformed ''abc'')])
      = [\<lparr>sum_State = Some ''S'', sum_District = Some ''D'',
           sum_TotalHouseholds = Some 100, sum_CleanWaterHH = None,
           sum_PercentAccess = None\<rparr>]"
    by code_simp
  have "files (example_world [example_row ''N'' (Value 100) (Malformed ''abc'')]) ''in.csv''
      = Some (CsvTable [example_row ''N'' (Value 100) (Malformed ''abc'')])"
    by (simp add: example_world_def)
  from main_fails [OF this _ p, of "''out''"] a
  show "main ''in.csv'' ''out'' (example_world [example_row ''N'' (Value 100) (Malformed ''abc'')])
     = (Some TypeError,
        \<lparr>files = [''in.csv'' \<mapsto> CsvTable [example_row ''N'' (Value 100) (Malformed ''abc'')],
                  ''out/district_summary'' \<mapsto>
                    SummaryCsv [\<lparr>sum_State = Some ''S'', sum_District = Some ''D'',
                                 sum_TotalHouseholds = Some 100, sum_CleanWaterHH = None,
                                 sum_PercentAccess = None\<rparr>]],
          stdout = []\<rparr>)"
    by (simp add: write_file_def example_world_def)
qed

section \<open>Invocation\<close>

text \<open>
  C8. The script takes exactly two arguments after its own name. With fewer or more it
  prints the usage message and exits with status 1; nothing is read or written and
  nothing else is printed. With exactly two it runs \<open>main\<close> on them.
\<close>

theorem usage_error_exit:
  "(length argv \<noteq> 3 \<longrightarrow>
      script argv w = (Some (SystemExit 1), w\<lparr>stdout := stdout w @ [Usage]\<rparr>)
    \<and> files (snd (script argv w)) = files w)
   \<and> (length argv = 3 \<longrightarrow> script argv w = main (argv ! 1) (argv ! 2) w)"
  by (simp add: script_def print_def)

theorem usage_error_exit_witness:
  "script [''combiner.py'', ''in.csv''] (example_world [])
     = (Some (SystemExit 1), \<lparr>files = [''in.csv'' \<mapsto> CsvTable []], stdout = [Usage]\<rparr>)
   \<and> script [''combiner.py'', ''in.csv'', ''out'', ''extra''] (example_world [])
     = (Some (SystemExit 1), \<lparr>files = [''in.csv'' \<mapsto> CsvTable []], stdout = [Usage]\<rparr>)
   \<and> script [''combiner.py'', ''in.csv'', ''out''] (example_world [])
     = main ''in.csv'' ''out'' (example_world [])
   \<and> fst (main ''in.csv'' ''out'' (example_world [])) = None
   \<and> files (snd (main ''in.csv'' ''out'' (example_world []))) ''out/points.geojson''
     = Some (GeoJson [])"
proof -
  have "fst (main ''in.csv'' ''out'' (example_world [])) = None"
    "files (snd (main ''in.csv'' ''out'' (example_world []))) ''out/points.geojson''
     = Some (GeoJson [])"
    by code_simp+
  with usage_error_exit [of "[''combiner.py'', ''in.csv'']" "example_world []"]
    usage_error_exit [of "[''combiner.py'', ''in.csv'', ''out'', ''extra'']" "example_world []"]
    usage_error_exit [of "[''combiner.py'', ''in.csv'', ''out'']" "example_world []"]
  show ?thesis by (simp add: example_world_def)
qed

section \<open>Two roundings\<close>

lemma eighth_percent:
  "mul_double (div_double (int_to_double 1) (int_to_double 800)) 100 = 1 / 8"
  by code_simp

lemma eighth_rounded:
  "spark_round2 (1 / 8) = fl (13 / 100)"
  "py_round2 (1 / 8) = fl (12 / 100)"
  "fl (13 / 100) \<noteq> fl (12 / 100)"
  "spark_round2 (3 / 8) = py_round2 (3 / 8)"
  by code_simp+

lemma eighth_row:
  "PercentAccess (transform (example_row ''A'' (Value 800) (Value 1))) = Some (1 / 8)"
  by (simp add: transform_simps example_row_def percent_access_def when_otherwise_def
        sql_gt_def sql_times_def sql_divide_def eighth_percent)

lemma eighth_summary:
  "map sum_PercentAccess (aggregate [transform (example_row ''A'' (Value 800) (Value 1))])
       = [Some (spark_round2 (1 / 8))]"
  by (simp add: aggregate_def group_keys_def group_of_def summarise_def Let_def
        sql_sum_def sum_step_def transform_simps example_row_def
        when_otherwise_def sql_gt_def sql_times_def sql_divide_def sround_def eighth_percent)

text \<open>
  C10. Within one run the two serialised percentages are rounded by different rules:
  the summary by the engine (ties away from zero), the features by the host language
  (ties to even). One household of 800 gives exactly 0.125 both as the record's
  percentage and as the district's unrounded percentage; the summary reports 0.13 and
  the feature 0.12. Where the tie breaks the same way (0.375) they agree.
\<close>

theorem rounding_modes_differ:
  "map PercentAccess [transform (example_row ''A'' (Value 800) (Value 1))] = [Some (1 / 8)]
   \<and> sql_times (sql_divide (Some 1) (Some 800)) (Some 100) = Some (1 / 8)
   \<and> map sum_PercentAccess (aggregate [transform (example_row ''A'' (Value 800) (Value 1))])
       = [Some (fl (13 / 100))]
   \<and> map_sum id (map prop_PercentAccess)
        (features_loop [transform (example_row ''A'' (Value 800) (Value 1))] [])
       = Inr [fl (12 / 100)]
   \<and> spark_round2 (1 / 8) = fl (13 / 100)
   \<and> py_round2 (1 / 8) = fl (12 / 100)
   \<and> fl (13 / 100) \<noteq> fl (12 / 100)
   \<and> spark_round2 (3 / 8) = py_round2 (3 / 8)"
proof (intro conjI)
  show "map PercentAccess [transform (example_row ''A'' (Value 800) (Value 1))] = [Some (1 / 8)]"
    by (simp add: eighth_row)
  show "sql_times (sql_divide (Some 1) (Some 800)) (Some 100) = Some (1 / 8)"
    by (simp add: sql_times_def sql_divide_def eighth_percent)
  show "map sum_PercentAccess (aggregate [transform (example_row ''A'' (Value 800) (Value 1))])
       = [Some (fl (13 / 100))]"
    by (simp only: eighth_summary eighth_rounded)
  show "map_sum id (map prop_PercentAccess)
        (features_loop [transform (example_row ''A'' (Value 800) (Value 1))] [])
       = Inr [fl (12 / 100)]"
    by (simp add: round_py_def eighth_row eighth_rounded)
qed (rule eighth_rounded)+

end
